theory Spec2Isabelle
  imports Main
begin

section \<open>Python values\<close>

text \<open>
  The functions of \<^verbatim>\<open>googlemaps/places.py\<close> are dynamically typed: every argument is
  a Python object that is tested for truthiness and stored in a dict. The objects that can
  reach them are modelled by one datatype. Python's unbounded integers are \<^typ>\<open>int\<close>;
  a dict literal is the list of its items in insertion order, read by key.
\<close>

datatype pyval =
    PNone
  | PBool bool
  | PInt int
  | PStr string
  | PList "pyval list"
  | PTuple "pyval list"
  | PDict "(string \<times> pyval) list"

text \<open>Python's truth value testing, as \<^verbatim>\<open>if x:\<close> applies it.\<close>

fun truthy :: "pyval \<Rightarrow> bool" where
  "truthy PNone = False"
| "truthy (PBool b) = b"
| "truthy (PInt i) = (i \<noteq> 0)"
| "truthy (PStr s) = (s \<noteq> [])"
| "truthy (PList xs) = (xs \<noteq> [])"
| "truthy (PTuple xs) = (xs \<noteq> [])"
| "truthy (PDict kvs) = (kvs \<noteq> [])"

section \<open>Exceptions\<close>

text \<open>
  An exception is a value. \<open>failure\<close> records where it was raised: by the one
  \<^verbatim>\<open>raise\<close> statement of the module, inside \<^verbatim>\<open>convert.latlng\<close>, inside the
  collaborator's \<^verbatim>\<open>_get\<close>, or while the module post-processes the response.
\<close>

datatype pyexn =
    ValueError string
  | TypeError string
  | KeyError string
  | AttributeError string
  | ApiError string

datatype failure =
    Raised pyexn
  | FromConvert pyexn
  | FromClient pyexn
  | FromResponse pyexn

section \<open>The collaborator\<close>

text \<open>
  \<^verbatim>\<open>client._get(path, params, extract_body=None, requests_kwargs=None)\<close> is the only
  thing the module asks of the client. A request is what one call passes; the client is a
  function from the request to what the call returns or raises. What it returns is the
  parsed JSON envelope, or the raw response (its body as chunks) when the caller passes the
  identity as \<^verbatim>\<open>extract_body\<close>.
\<close>

type_synonym params = "string \<rightharpoonup> pyval"

datatype body_extractor = Identity

record request =
  req_path :: string
  req_params :: params
  extract_body :: "body_extractor option"
  requests_kwargs :: "(string \<times> pyval) list option"

datatype response = Envelope pyval | RawResponse "string list"

type_synonym client = "request \<Rightarrow> pyexn + response"

text \<open>
  Every operation returns the list of requests it sent to the collaborator, in order, and
  its result or the exception it ends with.
\<close>

type_synonym 'a outcome = "request list \<times> (failure + 'a)"

definition client_get :: "client \<Rightarrow> request \<Rightarrow> response outcome" where
  "client_get client rq =
     ([rq], case client rq of Inl e \<Rightarrow> Inl (FromClient e) | Inr r \<Rightarrow> Inr r)"

text \<open>\<^verbatim>\<open>response["predictions"]\<close>: only a dict can be read by a string key.\<close>

fun getitem :: "response \<Rightarrow> string \<Rightarrow> pyexn + pyval" where
  "getitem (Envelope (PDict kvs)) k =
     (case map_of kvs k of None \<Rightarrow> Inl (KeyError k) | Some v \<Rightarrow> Inr v)"
| "getitem _ k = Inl (TypeError ''object is not subscriptable by a string key'')"

text \<open>\<^verbatim>\<open>response.iter_content()\<close>: a method of the raw response only.\<close>

fun iter_content :: "response \<Rightarrow> pyexn + string list" where
  "iter_content (RawResponse chunks) = Inr chunks"
| "iter_content (Envelope v) = Inl (AttributeError ''iter_content'')"

section \<open>Coordinate normalisation\<close>

text \<open>Decimal rendering of an integer, as \<^verbatim>\<open>str\<close> prints it.\<close>

definition digit :: "nat \<Rightarrow> char" where
  "digit n = ''0123456789'' ! (n mod 10)"

fun show_nat :: "nat \<Rightarrow> string" where
  "show_nat n = (if n < 10 then [digit n] else show_nat (n div 10) @ [digit n])"

declare show_nat.simps [simp del]

definition show_int :: "int \<Rightarrow> string" where
  "show_int i = (if i < 0 then CHR ''-'' # show_nat (nat (- i)) else show_nat (nat i))"

text \<open>
  Modelled from the spec: \<^verbatim>\<open>convert.latlng\<close>, of \<^verbatim>\<open>googlemaps/convert.py\<close>, which is
  not among the sources. The spec's data model: a coordinate is a string \<^verbatim>\<open>"lat,lng"\<close>, a
  mapping with the keys \<^verbatim>\<open>lat\<close> and \<^verbatim>\<open>lng\<close>, or a two-element sequence; it is normalised
  to the one canonical string \<^verbatim>\<open>"lat,lng"\<close> with decimal latitude and longitude; an invalid
  shape fails at normalisation time. Latitude and longitude are integers here. The spec
  fixes the result on a string only where the string is already canonical; the model
  returns every string as it is.
\<close>

definition latlng_pair :: "pyval \<Rightarrow> pyval \<Rightarrow> pyexn + pyval" where
  "latlng_pair lat lng =
     (case (lat, lng) of
        (PInt a, PInt b) \<Rightarrow> Inr (PStr (show_int a @ '','' @ show_int b))
      | _ \<Rightarrow> Inl (TypeError ''expected a lat/lng dict or tuple''))"

fun latlng :: "pyval \<Rightarrow> pyexn + pyval" where
  "latlng (PStr s) = Inr (PStr s)"
| "latlng (PDict kvs) =
     (case (map_of kvs ''lat'', map_of kvs ''lng'') of
        (Some lat, Some lng) \<Rightarrow> latlng_pair lat lng
      | _ \<Rightarrow> Inl (TypeError ''expected a lat/lng dict or tuple''))"
| "latlng (PList [lat, lng]) = latlng_pair lat lng"
| "latlng (PTuple [lat, lng]) = latlng_pair lat lng"
| "latlng _ = Inl (TypeError ''expected a lat/lng dict or tuple'')"

section \<open>The operations of places.py\<close>

text \<open>
  \<^verbatim>\<open>convert.latlng\<close> is the first argument \<open>conv\<close> of the two operations that call it,
  so that what is proved of them holds for every conversion function. An absent keyword
  argument has its default: \<^term>\<open>PNone\<close>, and \<^term>\<open>PBool False\<close> for \<^verbatim>\<open>open_now\<close>.
\<close>

type_synonym converter = "pyval \<Rightarrow> pyexn + pyval"

text \<open>
  Lines 70 to 85 of \<^verbatim>\<open>places\<close>: the dict and its conditional entries. The only
  statement there that can raise is the call of \<^verbatim>\<open>convert.latlng\<close>.
\<close>

definition places_params ::
  "converter \<Rightarrow> pyval \<Rightarrow> pyval \<Rightarrow> pyval \<Rightarrow> pyval \<Rightarrow> pyval \<Rightarrow> pyval \<Rightarrow> pyval \<Rightarrow> pyval
     \<Rightarrow> pyexn + params" where
  "places_params conv query location radius language min_price max_price open_now page_token =
     (let ps = [''query'' \<mapsto> query] in
      case (if truthy location
            then (case conv location of
                    Inl e \<Rightarrow> Inl e
                  | Inr loc \<Rightarrow> Inr (ps(''location'' \<mapsto> loc)))
            else Inr ps) of
        Inl e \<Rightarrow> Inl e
      | Inr ps \<Rightarrow>
          (let ps = (if truthy radius then ps(''radius'' \<mapsto> radius) else ps);
               ps = (if truthy language then ps(''language'' \<mapsto> language) else ps);
               ps = (if truthy min_price then ps(''minprice'' \<mapsto> min_price) else ps);
               ps = (if truthy max_price then ps(''maxprice'' \<mapsto> max_price) else ps);
               ps = (if truthy open_now then ps(''opennow'' \<mapsto> PStr ''true'') else ps);
               ps = (if truthy page_token then ps(''pagetoken'' \<mapsto> page_token) else ps)
           in Inr ps))"

text \<open>The argument \<^verbatim>\<open>types\<close> is accepted and never read.\<close>

definition places ::
  "converter \<Rightarrow> client \<Rightarrow> pyval \<Rightarrow> pyval \<Rightarrow> pyval \<Rightarrow> pyval \<Rightarrow> pyval \<Rightarrow> pyval \<Rightarrow> pyval
     \<Rightarrow> pyval \<Rightarrow> pyval \<Rightarrow> response outcome" where
  "places conv client query location radius language min_price max_price open_now types
      page_token =
     (case places_params conv query location radius language min_price max_price open_now
             page_token of
        Inl e \<Rightarrow> ([], Inl (FromConvert e))
      | Inr ps \<Rightarrow>
          client_get client
            \<lparr>req_path = ''/maps/api/place/textsearch/json'', req_params = ps,
             extract_body = None, requests_kwargs = None\<rparr>)"

definition place :: "client \<Rightarrow> pyval \<Rightarrow> pyval \<Rightarrow> response outcome" where
  "place client place_id language =
     (let ps = [''placeid'' \<mapsto> place_id];
          ps = (if truthy language then ps(''language'' \<mapsto> language) else ps)
      in client_get client
           \<lparr>req_path = ''/maps/api/place/details/json'', req_params = ps,
            extract_body = None, requests_kwargs = None\<rparr>)"

definition places_photo ::
  "client \<Rightarrow> pyval \<Rightarrow> pyval \<Rightarrow> pyval \<Rightarrow> string list outcome" where
  "places_photo client photo_reference max_width max_height =
     (if \<not> (truthy max_width \<or> truthy max_height)
      then ([], Inl (Raised (ValueError ''a max_width or max_height arg is required'')))
      else
        (let ps = [''photoreference'' \<mapsto> photo_reference];
             ps = (if truthy max_width then ps(''maxwidth'' \<mapsto> max_width) else ps);
             ps = (if truthy max_height then ps(''maxheight'' \<mapsto> max_height) else ps)
         in case client_get client
                   \<lparr>req_path = ''/maps/api/place/photo'', req_params = ps,
                    extract_body = Some Identity,
                    requests_kwargs = Some [(''stream'', PBool True)]\<rparr> of
              (sent, Inl e) \<Rightarrow> (sent, Inl e)
            | (sent, Inr response) \<Rightarrow>
                (sent, case iter_content response of
                         Inl e \<Rightarrow> Inl (FromResponse e)
                       | Inr chunks \<Rightarrow> Inr chunks)))"

text \<open>Lines 187 to 196 of \<^verbatim>\<open>places_autocomplete\<close>.\<close>

definition autocomplete_params ::
  "converter \<Rightarrow> pyval \<Rightarrow> pyval \<Rightarrow> pyval \<Rightarrow> pyval \<Rightarrow> pyval \<Rightarrow> pyexn + params" where
  "autocomplete_params conv input_text offset location radius language =
     (let ps = [''input'' \<mapsto> input_text];
          ps = (if truthy offset then ps(''offset'' \<mapsto> offset) else ps) in
      case (if truthy location
            then (case conv location of
                    Inl e \<Rightarrow> Inl e
                  | Inr loc \<Rightarrow> Inr (ps(''location'' \<mapsto> loc)))
            else Inr ps) of
        Inl e \<Rightarrow> Inl e
      | Inr ps \<Rightarrow>
          (let ps = (if truthy radius then ps(''radius'' \<mapsto> radius) else ps);
               ps = (if truthy language then ps(''language'' \<mapsto> language) else ps)
           in Inr ps))"

definition places_autocomplete ::
  "converter \<Rightarrow> client \<Rightarrow> pyval \<Rightarrow> pyval \<Rightarrow> pyval \<Rightarrow> pyval \<Rightarrow> pyval \<Rightarrow> pyval outcome" where
  "places_autocomplete conv client input_text offset location radius language =
     (case autocomplete_params conv input_text offset location radius language of
        Inl e \<Rightarrow> ([], Inl (FromConvert e))
      | Inr ps \<Rightarrow>
          (case client_get client
                  \<lparr>req_path = ''/maps/api/place/queryautocomplete/json'', req_params = ps,
                   extract_body = None, requests_kwargs = None\<rparr> of
             (sent, Inl e) \<Rightarrow> (sent, Inl e)
           | (sent, Inr response) \<Rightarrow>
               (sent, case getitem response ''predictions'' of
                        Inl e \<Rightarrow> Inl (FromResponse e)
                      | Inr predictions \<Rightarrow> Inr predictions)))"

section \<open>A stub collaborator\<close>

text \<open>
  The collaborator of the spec's scenarios: it answers every request with the same
  response.
\<close>

definition stub_client :: "response \<Rightarrow> client" where
  "stub_client r rq = Inr r"

section \<open>Ending before the collaborator is called\<close>















section \<open>Coordinates\<close>

lemma show_int_1: "show_int 1 = ''1''"
  by (simp add: show_int_def show_nat.simps digit_def)

lemma show_int_2: "show_int 2 = ''2''"
  by (simp add: show_int_def show_nat.simps digit_def)

lemma latlng_pair_ints:
  "latlng_pair (PInt a) (PInt b) = Inr (PStr (show_int a @ '','' @ show_int b))"
  by (simp add: latlng_pair_def)

text \<open>The mapping and both sequences of one coordinate normalise to one string.\<close>

lemma latlng_shapes_agree:
  "latlng (PDict [(''lat'', PInt a), (''lng'', PInt b)]) = latlng (PTuple [PInt a, PInt b])
   \<and> latlng (PList [PInt a, PInt b]) = latlng (PTuple [PInt a, PInt b])
   \<and> latlng (PTuple [PInt a, PInt b]) = latlng (PStr (show_int a @ '','' @ show_int b))"
  by (simp add: latlng_pair_ints)

text \<open>
  What \<^verbatim>\<open>convert.latlng\<close> returns for a truthy location is the \<^verbatim>\<open>location\<close> entry of
  the dict, in both operations that take a location.
\<close>

lemma places_params_location:
  "truthy location \<Longrightarrow> conv location = Inr loc \<Longrightarrow>
   \<exists>ps. places_params conv query location radius language min_price max_price open_now
          page_token = Inr ps
      \<and> ps ''location'' = Some loc"
  by (simp add: places_params_def Let_def)

lemma autocomplete_params_location:
  "truthy location \<Longrightarrow> conv location = Inr loc \<Longrightarrow>
   \<exists>ps. autocomplete_params conv input_text offset location radius language = Inr ps
      \<and> ps ''location'' = Some loc"
  by (simp add: autocomplete_params_def Let_def)

text \<open>
  C2. The string \<^verbatim>\<open>"1,2"\<close>, the mapping \<^verbatim>\<open>{lat: 1, lng: 2}\<close> and the sequence
  \<^verbatim>\<open>(1, 2)\<close> (as a tuple and as a list) all normalise to the canonical string
  \<^verbatim>\<open>"1,2"\<close>, and that string is the \<^verbatim>\<open>location\<close> entry of the dict that
  \<^verbatim>\<open>places\<close> and \<^verbatim>\<open>places_autocomplete\<close> build from any of them.
\<close>

theorem latlng_canonical:
  assumes "coordinate = PStr ''1,2''
           \<or> coordinate = PDict [(''lat'', PInt 1), (''lng'', PInt 2)]
           \<or> coordinate = PTuple [PInt 1, PInt 2]
           \<or> coordinate = PList [PInt 1, PInt 2]"
  shows "latlng coordinate = Inr (PStr ''1,2'')
         \<and> (\<exists>ps. places_params latlng query coordinate radius language min_price max_price
                    open_now page_token = Inr ps
                \<and> ps ''location'' = Some (PStr ''1,2''))
         \<and> (\<exists>ps. autocomplete_params latlng input_text offset coordinate radius language
                    = Inr ps
                \<and> ps ''location'' = Some (PStr ''1,2''))"
proof -
  from assms have t: "truthy coordinate"
    by auto
  from assms have n: "latlng coordinate = Inr (PStr ''1,2'')"
    by (auto simp: latlng_pair_ints show_int_1 show_int_2)
  from t n show ?thesis
    using places_params_location [of coordinate latlng "PStr ''1,2''"]
      autocomplete_params_location [of coordinate latlng "PStr ''1,2''"]
    by simp
qed

theorem latlng_canonical_witness:
  "latlng (PStr ''1,2'') = Inr (PStr ''1,2'')
   \<and> latlng (PDict [(''lat'', PInt 1), (''lng'', PInt 2)]) = Inr (PStr ''1,2'')
   \<and> latlng (PTuple [PInt 1, PInt 2]) = Inr (PStr ''1,2'')
   \<and> latlng (PList [PInt 1, PInt 2]) = Inr (PStr ''1,2'')
   \<and> (\<exists>ps. places_params latlng (PStr ''restaurant'')
              (PDict [(''lat'', PInt 1), (''lng'', PInt 2)]) PNone PNone PNone PNone
              (PBool False) PNone = Inr ps
          \<and> ps ''location'' = Some (PStr ''1,2''))
   \<and> (\<exists>ps. autocomplete_params latlng (PStr ''pizza'') PNone (PTuple [PInt 1, PInt 2])
              PNone PNone = Inr ps
          \<and> ps ''location'' = Some (PStr ''1,2''))"
  using
    latlng_canonical [of "PStr ''1,2''"]
    latlng_canonical
      [where coordinate = "PDict [(''lat'', PInt 1), (''lng'', PInt 2)]"
         and query = "PStr ''restaurant''" and radius = PNone and language = PNone
         and min_price = PNone and max_price = PNone and open_now = "PBool False"
         and page_token = PNone]
    latlng_canonical
      [where coordinate = "PTuple [PInt 1, PInt 2]" and input_text = "PStr ''pizza''"
         and offset = PNone and radius = PNone and language = PNone]
    latlng_canonical [of "PList [PInt 1, PInt 2]"]
  by simp

section \<open>Autocomplete\<close>

text \<open>
  C3. When \<^verbatim>\<open>places_autocomplete\<close> has sent its request and the collaborator answers
  it with an envelope that has a \<^verbatim>\<open>predictions\<close> field, the operation returns the value
  of that field and not the envelope.
\<close>

theorem places_autocomplete_returns_predictions:
  assumes "fst (places_autocomplete conv client input_text offset location radius language)
             = [rq]"
    and "client rq = Inr (Envelope (PDict kvs))"
    and "map_of kvs ''predictions'' = Some predictions"
  shows "snd (places_autocomplete conv client input_text offset location radius language)
           = Inr predictions"
  using assms
  by (auto simp: places_autocomplete_def client_get_def split: sum.splits)

text \<open>
  The scenario of the spec: the stub answers with
  \<^verbatim>\<open>{"predictions": [{"description": "Pizza Place"}]}\<close>.
\<close>

theorem places_autocomplete_scenario:
  "snd (places_autocomplete latlng
          (stub_client (Envelope (PDict [(''predictions'',
             PList [PDict [(''description'', PStr ''Pizza Place'')]])])))
          (PStr ''pizza near New York'') PNone PNone PNone PNone)
     = Inr (PList [PDict [(''description'', PStr ''Pizza Place'')]])"
  by (rule places_autocomplete_returns_predictions
        [where rq = "\<lparr>req_path = ''/maps/api/place/queryautocomplete/json'',
                     req_params = [''input'' \<mapsto> PStr ''pizza near New York''],
                     extract_body = None, requests_kwargs = None\<rparr>"
           and kvs = "[(''predictions'', PList [PDict [(''description'', PStr ''Pizza Place'')]])]"])
     (simp_all add: places_autocomplete_def autocomplete_params_def client_get_def
        stub_client_def)

section \<open>Text search\<close>

text \<open>
  A request that \<^verbatim>\<open>places\<close> has sent carries the dict that lines 70 to 85 built, and
  each optional entry of that dict depends on its own argument only.
\<close>

lemma places_sent:
  assumes "rq \<in> set (fst (places conv client query location radius language min_price
                            max_price open_now types page_token))"
  shows "\<exists>ps. places_params conv query location radius language min_price max_price open_now
               page_token = Inr ps \<and> req_params rq = ps"
  using assms by (auto simp: places_def client_get_def split: sum.splits)

lemma places_params_opennow:
  "places_params conv query location radius language min_price max_price open_now page_token
     = Inr ps \<Longrightarrow>
   ps ''opennow'' = (if truthy open_now then Some (PStr ''true'') else None)"
  by (auto simp: places_params_def Let_def split: sum.splits if_splits)

lemma places_params_pagetoken:
  "places_params conv query location radius language min_price max_price open_now page_token
     = Inr ps \<Longrightarrow>
   ps ''pagetoken'' = (if truthy page_token then Some page_token else None)"
  by (auto simp: places_params_def Let_def split: sum.splits if_splits)

lemma places_params_minprice:
  "places_params conv query location radius language min_price max_price open_now page_token
     = Inr ps \<Longrightarrow>
   ps ''minprice'' = (if truthy min_price then Some min_price else None)"
  by (auto simp: places_params_def Let_def split: sum.splits if_splits)

lemma places_params_maxprice:
  "places_params conv query location radius language min_price max_price open_now page_token
     = Inr ps \<Longrightarrow>
   ps ''maxprice'' = (if truthy max_price then Some max_price else None)"
  by (auto simp: places_params_def Let_def split: sum.splits if_splits)

text \<open>A falsy price bound leaves the dict as \<^verbatim>\<open>None\<close> leaves it.\<close>

lemma places_params_min_price_falsy:
  "\<not> truthy min_price \<Longrightarrow>
   places_params conv query location radius language min_price max_price open_now page_token
   = places_params conv query location radius language PNone max_price open_now page_token"
  by (simp add: places_params_def Let_def split: sum.split)

lemma places_params_max_price_falsy:
  "\<not> truthy max_price \<Longrightarrow>
   places_params conv query location radius language min_price max_price open_now page_token
   = places_params conv query location radius language min_price PNone open_now page_token"
  by (simp add: places_params_def Let_def split: sum.split)

text \<open>
  C4. Every request of a text search called with \<^verbatim>\<open>open_now=True\<close> has the entry
  \<^verbatim>\<open>opennow\<close> with the string \<^verbatim>\<open>"true"\<close>; every request of one called with
  \<^verbatim>\<open>open_now=False\<close> has no \<^verbatim>\<open>opennow\<close> entry; and whatever \<^verbatim>\<open>open_now\<close> is, the
  string \<^verbatim>\<open>"false"\<close> is never sent under that key.
\<close>

theorem places_open_now:
  "(\<forall>rq \<in> set (fst (places conv client query location radius language min_price max_price
                      (PBool True) types page_token)).
      req_params rq ''opennow'' = Some (PStr ''true''))
   \<and> (\<forall>rq \<in> set (fst (places conv client query location radius language min_price max_price
                        (PBool False) types page_token)).
        req_params rq ''opennow'' = None)
   \<and> (\<forall>rq \<in> set (fst (places conv client query location radius language min_price max_price
                        open_now types page_token)).
        req_params rq ''opennow'' \<noteq> Some (PStr ''false''))"
  by (auto dest!: places_sent places_params_opennow split: if_splits)

theorem places_open_now_witness:
  "(\<exists>rq. fst (places latlng (stub_client (Envelope (PDict [(''results'', PList [])])))
               (PStr ''restaurant'') PNone PNone PNone PNone PNone (PBool True) PNone PNone)
            = [rq]
        \<and> req_params rq ''opennow'' = Some (PStr ''true''))
   \<and> (\<exists>rq. fst (places latlng (stub_client (Envelope (PDict [(''results'', PList [])])))
                 (PStr ''restaurant'') PNone PNone PNone PNone PNone (PBool False) PNone PNone)
              = [rq]
          \<and> req_params rq ''opennow'' = None)"
proof -
  let ?c = "stub_client (Envelope (PDict [(''results'', PList [])]))"
  let ?on = "fst (places latlng ?c (PStr ''restaurant'') PNone PNone PNone PNone PNone
                    (PBool True) PNone PNone)"
  let ?off = "fst (places latlng ?c (PStr ''restaurant'') PNone PNone PNone PNone PNone
                     (PBool False) PNone PNone)"
  have on: "\<exists>rq. ?on = [rq]"
    by (simp add: places_def places_params_def client_get_def)
  have off: "\<exists>rq. ?off = [rq]"
    by (simp add: places_def places_params_def client_get_def)
  have "\<forall>rq \<in> set ?on. req_params rq ''opennow'' = Some (PStr ''true'')"
    and "\<forall>rq \<in> set ?off. req_params rq ''opennow'' = None"
    using places_open_now [of latlng ?c "PStr ''restaurant''" PNone PNone PNone PNone PNone
                              PNone PNone]
    by simp_all
  with on off show ?thesis by auto
qed

text \<open>
  C7. Every request of a text search called with a page token (a truthy one: a non-empty
  string) has the entry \<^verbatim>\<open>pagetoken\<close> with exactly that token, and without one it has
  no such entry. The entry is the same in any two text searches called with the same page
  token, whatever their other arguments are.
\<close>

theorem places_page_token:
  "(\<forall>rq \<in> set (fst (places conv client query location radius language min_price max_price
                      open_now types page_token)).
      req_params rq ''pagetoken'' = (if truthy page_token then Some page_token else None))
   \<and> (\<forall>rq \<in> set (fst (places conv client query location radius language min_price max_price
                        open_now types page_token)).
       \<forall>rq' \<in> set (fst (places conv' client' query' location' radius' language' min_price'
                            max_price' open_now' types' page_token)).
         req_params rq ''pagetoken'' = req_params rq' ''pagetoken'')"
  by (auto dest!: places_sent places_params_pagetoken split: if_splits)

theorem places_page_token_witness:
  "truthy (PStr ''tok42'')
   \<and> (\<exists>rq. fst (places latlng (stub_client (Envelope (PDict [])))
                 (PStr ''restaurant'') (PTuple [PInt 1, PInt 2]) (PInt 500) PNone PNone PNone
                 (PBool False) PNone (PStr ''tok42'')) = [rq]
          \<and> req_params rq ''pagetoken'' = Some (PStr ''tok42''))
   \<and> (\<exists>rq. fst (places latlng (stub_client (Envelope (PDict [])))
                 (PStr ''restaurant'') PNone PNone PNone PNone PNone
                 (PBool False) PNone (PStr ''tok42'')) = [rq]
          \<and> req_params rq ''pagetoken'' = Some (PStr ''tok42''))"
proof -
  let ?c = "stub_client (Envelope (PDict []))"
  let ?a = "fst (places latlng ?c (PStr ''restaurant'') (PTuple [PInt 1, PInt 2]) (PInt 500)
                   PNone PNone PNone (PBool False) PNone (PStr ''tok42''))"
  let ?b = "fst (places latlng ?c (PStr ''restaurant'') PNone PNone PNone PNone PNone
                   (PBool False) PNone (PStr ''tok42''))"
  have a: "\<exists>rq. ?a = [rq]"
    by (simp add: places_def places_params_def client_get_def latlng_pair_def)
  have b: "\<exists>rq. ?b = [rq]"
    by (simp add: places_def places_params_def client_get_def)
  have "\<forall>rq \<in> set ?a. req_params rq ''pagetoken'' = Some (PStr ''tok42'')"
    and "\<forall>rq \<in> set ?b. req_params rq ''pagetoken'' = Some (PStr ''tok42'')"
    using places_page_token [of latlng ?c "PStr ''restaurant''" _ _ PNone PNone PNone
                                "PBool False" PNone "PStr ''tok42''"]
    by simp_all
  with a b show ?thesis by auto
qed

text \<open>
  C8, as the claim states it, fails: a truthy location of an invalid shape makes
  \<^verbatim>\<open>convert.latlng\<close> raise, so the text search ends with an exception that is not the
  collaborator's, and the collaborator is never called.
\<close>

theorem places_invalid_location_raises:
  "places latlng (stub_client (Envelope (PDict []))) (PStr ''restaurant'') (PInt 5)
     PNone PNone PNone PNone (PBool False) PNone PNone
   = ([], Inl (FromConvert (TypeError ''expected a lat/lng dict or tuple'')))"
  by (simp add: places_def places_params_def)

text \<open>
  C8, amended. \<^verbatim>\<open>places\<close> validates nothing itself. Whenever the location is falsy or
  its normalisation succeeds, then for every query (the empty string too) and every other
  argument it sends exactly one request, whose dict holds the query, and its result is what
  the collaborator returned or raised. When the normalisation of a truthy location fails,
  that exception ends the call and no request is sent.
\<close>

theorem places_delegates:
  "(\<not> truthy location \<or> conv location = Inr loc \<longrightarrow>
      (\<exists>ps. places conv client query location radius language min_price max_price open_now
               types page_token
             = (let rq = \<lparr>req_path = ''/maps/api/place/textsearch/json'', req_params = ps,
                           extract_body = None, requests_kwargs = None\<rparr>
                in ([rq], case client rq of Inl e \<Rightarrow> Inl (FromClient e) | Inr r \<Rightarrow> Inr r))
           \<and> ps ''query'' = Some query))
   \<and> (truthy location \<and> conv location = Inl e \<longrightarrow>
        places conv client query location radius language min_price max_price open_now
          types page_token = ([], Inl (FromConvert e)))"
  by (auto simp: places_def places_params_def client_get_def Let_def)

theorem places_delegates_witness:
  "(\<exists>ps. places latlng (stub_client (Envelope (PDict []))) (PStr []) PNone PNone PNone PNone
            PNone (PBool False) PNone PNone
          = (let rq = \<lparr>req_path = ''/maps/api/place/textsearch/json'', req_params = ps,
                        extract_body = None, requests_kwargs = None\<rparr>
             in ([rq], case stub_client (Envelope (PDict [])) rq of
                         Inl e \<Rightarrow> Inl (FromClient e) | Inr r \<Rightarrow> Inr r))
        \<and> ps ''query'' = Some (PStr []))
   \<and> places latlng (stub_client (Envelope (PDict []))) (PStr ''restaurant'')
       (PList [PInt 1]) PNone PNone PNone PNone (PBool False) PNone PNone
     = ([], Inl (FromConvert (TypeError ''expected a lat/lng dict or tuple'')))"
  using
    places_delegates
      [where location = PNone and conv = latlng and loc = PNone
         and client = "stub_client (Envelope (PDict []))" and query = "PStr []"
         and radius = PNone and language = PNone and min_price = PNone and max_price = PNone
         and open_now = "PBool False" and types = PNone and page_token = PNone]
    places_delegates
      [where location = "PList [PInt 1]" and conv = latlng
         and e = "TypeError ''expected a lat/lng dict or tuple''"
         and client = "stub_client (Envelope (PDict []))" and query = "PStr ''restaurant''"
         and radius = PNone and language = PNone and min_price = PNone and max_price = PNone
         and open_now = "PBool False" and types = PNone and page_token = PNone]
  by simp

text \<open>
  C10. A text search called with \<^verbatim>\<open>min_price=0\<close> sends no \<^verbatim>\<open>minprice\<close> entry, and one
  called with \<^verbatim>\<open>max_price=0\<close> sends no \<^verbatim>\<open>maxprice\<close> entry; each call does exactly what
  the call with that bound unset does.
\<close>

theorem places_price_zero_omitted:
  "(\<forall>rq \<in> set (fst (places conv client query location radius language (PInt 0) max_price
                      open_now types page_token)).
      req_params rq ''minprice'' = None)
   \<and> (\<forall>rq \<in> set (fst (places conv client query location radius language min_price (PInt 0)
                        open_now types page_token)).
        req_params rq ''maxprice'' = None)
   \<and> places conv client query location radius language (PInt 0) max_price open_now types
       page_token
     = places conv client query location radius language PNone max_price open_now types
         page_token
   \<and> places conv client query location radius language min_price (PInt 0) open_now types
       page_token
     = places conv client query location radius language min_price PNone open_now types
         page_token"
proof -
  have "\<forall>rq \<in> set (fst (places conv client query location radius language (PInt 0) max_price
                          open_now types page_token)).
          req_params rq ''minprice'' = None"
    by (auto dest!: places_sent places_params_minprice)
  moreover
  have "\<forall>rq \<in> set (fst (places conv client query location radius language min_price (PInt 0)
                          open_now types page_token)).
          req_params rq ''maxprice'' = None"
    by (auto dest!: places_sent places_params_maxprice)
  moreover
  have "places conv client query location radius language (PInt 0) max_price open_now types
          page_token
        = places conv client query location radius language PNone max_price open_now types
            page_token"
    by (simp add: places_def places_params_min_price_falsy [of "PInt 0"])
  moreover
  have "places conv client query location radius language min_price (PInt 0) open_now types
          page_token
        = places conv client query location radius language min_price PNone open_now types
            page_token"
    by (simp add: places_def places_params_max_price_falsy [of "PInt 0"])
  ultimately show ?thesis by blast
qed

theorem places_price_zero_omitted_witness:
  "(\<exists>rq. fst (places latlng (stub_client (Envelope (PDict [])))
               (PStr ''restaurant'') PNone PNone PNone (PInt 0) (PInt 4) (PBool False) PNone
               PNone) = [rq]
        \<and> req_params rq ''minprice'' = None \<and> req_params rq ''maxprice'' = Some (PInt 4))
   \<and> (\<exists>rq. fst (places latlng (stub_client (Envelope (PDict [])))
                 (PStr ''restaurant'') PNone PNone PNone (PInt 1) (PInt 0) (PBool False) PNone
                 PNone) = [rq]
          \<and> req_params rq ''maxprice'' = None \<and> req_params rq ''minprice'' = Some (PInt 1))"
proof -
  let ?c = "stub_client (Envelope (PDict []))"
  let ?a = "fst (places latlng ?c (PStr ''restaurant'') PNone PNone PNone (PInt 0) (PInt 4)
                   (PBool False) PNone PNone)"
  let ?b = "fst (places latlng ?c (PStr ''restaurant'') PNone PNone PNone (PInt 1) (PInt 0)
                   (PBool False) PNone PNone)"
  have a: "\<exists>rq. ?a = [rq] \<and> req_params rq ''maxprice'' = Some (PInt 4)"
    by (simp add: places_def places_params_def client_get_def)
  have b: "\<exists>rq. ?b = [rq] \<and> req_params rq ''minprice'' = Some (PInt 1)"
    by (simp add: places_def places_params_def client_get_def)
  have "\<forall>rq \<in> set ?a. req_params rq ''minprice'' = None"
    and "\<forall>rq \<in> set ?b. req_params rq ''maxprice'' = None"
    using places_price_zero_omitted
            [of latlng ?c "PStr ''restaurant''" PNone PNone PNone "PInt 4" "PBool False"
                PNone PNone "PInt 1"]
    by simp_all
  with a b show ?thesis by auto
qed

section \<open>Place details\<close>

text \<open>
  C5. \<^verbatim>\<open>place(client, "abc123", language="en")\<close> sends exactly one request, with the
  path \<^verbatim>\<open>/maps/api/place/details/json\<close> and the dict
  \<^verbatim>\<open>{"placeid": "abc123", "language": "en"}\<close>, and its result is what the collaborator
  returned (or raised) for it. Without a language the dict is \<^verbatim>\<open>{"placeid": place_id}\<close>.
\<close>

theorem place_details_request:
  "place client (PStr ''abc123'') (PStr ''en'') =
     (let rq = \<lparr>req_path = ''/maps/api/place/details/json'',
                req_params = [''placeid'' \<mapsto> PStr ''abc123'', ''language'' \<mapsto> PStr ''en''],
                extract_body = None, requests_kwargs = None\<rparr>
      in ([rq], case client rq of Inl e \<Rightarrow> Inl (FromClient e) | Inr r \<Rightarrow> Inr r))
   \<and> place client place_id PNone =
     (let rq = \<lparr>req_path = ''/maps/api/place/details/json'',
                req_params = [''placeid'' \<mapsto> place_id],
                extract_body = None, requests_kwargs = None\<rparr>
      in ([rq], case client rq of Inl e \<Rightarrow> Inl (FromClient e) | Inr r \<Rightarrow> Inr r))"
  by (simp add: place_def client_get_def Let_def)

section \<open>Photos\<close>

text \<open>
  C6. With \<^verbatim>\<open>max_width\<close> absent and \<^verbatim>\<open>max_height\<close> set (to a truthy value: a non-zero
  number of pixels), \<^verbatim>\<open>places_photo\<close> sends one request whose dict is the photo
  reference and \<^verbatim>\<open>maxheight\<close> with the given value: it has no \<^verbatim>\<open>maxwidth\<close> entry.
\<close>

theorem places_photo_height_only:
  assumes "truthy max_height"
  shows "\<exists>rq. fst (places_photo client photo_reference PNone max_height) = [rq]
           \<and> req_path rq = ''/maps/api/place/photo''
           \<and> req_params rq
               = [''photoreference'' \<mapsto> photo_reference, ''maxheight'' \<mapsto> max_height]
           \<and> req_params rq ''maxheight'' = Some max_height
           \<and> req_params rq ''photoreference'' = Some photo_reference
           \<and> req_params rq ''maxwidth'' = None"
  using assms
  by (simp add: places_photo_def client_get_def Let_def split: prod.split sum.split)

theorem places_photo_height_only_witness:
  "truthy (PInt 100)
   \<and> (\<exists>rq. fst (places_photo (stub_client (RawResponse [''chunk'']))
                 (PStr ''ref1'') PNone (PInt 100)) = [rq]
          \<and> req_params rq ''maxheight'' = Some (PInt 100)
          \<and> req_params rq ''photoreference'' = Some (PStr ''ref1'')
          \<and> req_params rq ''maxwidth'' = None)"
  using places_photo_height_only
          [of "PInt 100" "stub_client (RawResponse [''chunk''])" "PStr ''ref1''"]
  by auto

lemma places_photo_sent:
  assumes "rq \<in> set (fst (places_photo client photo_reference max_width max_height))"
  shows "req_params rq ''maxwidth'' = (if truthy max_width then Some max_width else None)
         \<and> req_params rq ''maxheight'' = (if truthy max_height then Some max_height else None)"
  using assms
  by (auto simp: places_photo_def client_get_def Let_def split: if_splits sum.splits)

text \<open>
  C9. The guard tests truthiness: \<^verbatim>\<open>places_photo\<close> called with \<^verbatim>\<open>max_width=0\<close> and
  \<^verbatim>\<open>max_height=0\<close> raises the ValueError of the call with both absent, and sends nothing.
  A size hint of 0 is in no request: not \<^verbatim>\<open>maxwidth\<close> when \<^verbatim>\<open>max_width=0\<close>, not
  \<^verbatim>\<open>maxheight\<close> when \<^verbatim>\<open>max_height=0\<close>.
\<close>

theorem places_photo_zero_hints:
  "places_photo client photo_reference (PInt 0) (PInt 0)
     = ([], Inl (Raised (ValueError ''a max_width or max_height arg is required'')))
   \<and> places_photo client photo_reference (PInt 0) (PInt 0)
     = places_photo client photo_reference PNone PNone
   \<and> (\<forall>rq \<in> set (fst (places_photo client photo_reference (PInt 0) max_height)).
        req_params rq ''maxwidth'' = None)
   \<and> (\<forall>rq \<in> set (fst (places_photo client photo_reference max_width (PInt 0))).
        req_params rq ''maxheight'' = None)"
proof -
  have "places_photo client photo_reference (PInt 0) (PInt 0)
          = ([], Inl (Raised (ValueError ''a max_width or max_height arg is required'')))"
    by (simp add: places_photo_def)
  moreover
  have "places_photo client photo_reference PNone PNone
          = ([], Inl (Raised (ValueError ''a max_width or max_height arg is required'')))"
    by (simp add: places_photo_def)
  moreover
  have "\<forall>rq \<in> set (fst (places_photo client photo_reference (PInt 0) max_height)).
          req_params rq ''maxwidth'' = None"
    by (auto dest!: places_photo_sent)
  moreover
  have "\<forall>rq \<in> set (fst (places_photo client photo_reference max_width (PInt 0))).
          req_params rq ''maxheight'' = None"
    by (auto dest!: places_photo_sent)
  ultimately show ?thesis by simp
qed

theorem places_photo_zero_hints_witness:
  "(\<exists>rq. fst (places_photo (stub_client (RawResponse [''chunk''])) (PStr ''ref1'')
               (PInt 0) (PInt 100)) = [rq]
        \<and> req_params rq ''maxwidth'' = None \<and> req_params rq ''maxheight'' = Some (PInt 100))
   \<and> (\<exists>rq. fst (places_photo (stub_client (RawResponse [''chunk''])) (PStr ''ref1'')
                 (PInt 100) (PInt 0)) = [rq]
          \<and> req_params rq ''maxheight'' = None \<and> req_params rq ''maxwidth'' = Some (PInt 100))"
proof -
  let ?c = "stub_client (RawResponse [''chunk''])"
  let ?a = "fst (places_photo ?c (PStr ''ref1'') (PInt 0) (PInt 100))"
  let ?b = "fst (places_photo ?c (PStr ''ref1'') (PInt 100) (PInt 0))"
  have a: "\<exists>rq. ?a = [rq] \<and> req_params rq ''maxheight'' = Some (PInt 100)"
    by (simp add: places_photo_def client_get_def stub_client_def)
  have b: "\<exists>rq. ?b = [rq] \<and> req_params rq ''maxwidth'' = Some (PInt 100)"
    by (simp add: places_photo_def client_get_def stub_client_def)
  have "\<forall>rq \<in> set ?a. req_params rq ''maxwidth'' = None"
    and "\<forall>rq \<in> set ?b. req_params rq ''maxheight'' = None"
    using places_photo_zero_hints [of ?c "PStr ''ref1''" "PInt 100" "PInt 100"]
    by simp_all
  with a b show ?thesis by auto
qed

end
